theory Spec2Isabelle
  imports Main
begin

section \<open>Input events and the quit filter\<close>

text \<open>
  The drivers read two things from pygame each frame: the snapshot of held keys
  (\<^verbatim>\<open>pygame.key.get_pressed()\<close>, indexed by key code) and the list of pending events
  (\<^verbatim>\<open>pygame.event.get()\<close>). Only the key codes and event types the sources name are
  distinguished; every other code is kept by its number.
\<close>

datatype key = K_LCTRL | K_RCTRL | K_q | K_SPACE | K_RIGHT | K_UP | K_other nat

datatype event_type = QUIT | KEYDOWN | KEYUP | OTHER_TYPE nat

datatype event = QuitEv | KeyDown key | KeyUp key | OtherEv nat

fun etype :: "event \<Rightarrow> event_type" where
  "etype QuitEv = QUIT"
| "etype (KeyDown k) = KEYDOWN"
| "etype (KeyUp k) = KEYUP"
| "etype (OtherEv n) = OTHER_TYPE n"

text \<open>\<^verbatim>\<open>event.key\<close>, which the key events carry.\<close>

fun ekey :: "event \<Rightarrow> key option" where
  "ekey (KeyDown k) = Some k"
| "ekey (KeyUp k) = Some k"
| "ekey QuitEv = None"
| "ekey (OtherEv n) = None"

type_synonym pressed = "key \<Rightarrow> bool"

text \<open>\<^verbatim>\<open>Game.is_quit_event\<close> (game.py) and \<^verbatim>\<open>MyGame.is_quit_event\<close> (scene_manager.py)
  have the same body.\<close>

definition is_quit_event :: "event \<Rightarrow> pressed \<Rightarrow> bool" where
  "is_quit_event ev pressed_keys =
     (let x_out = (etype ev = QUIT);
          ctrl = (pressed_keys K_LCTRL \<or> pressed_keys K_RCTRL);
          q = pressed_keys K_q
      in x_out \<or> (ctrl \<and> q))"

definition MyGame_is_quit_event :: "event \<Rightarrow> pressed \<Rightarrow> bool" where
  "MyGame_is_quit_event ev pressed_keys =
     (let x_out = (etype ev = QUIT);
          ctrl = (pressed_keys K_LCTRL \<or> pressed_keys K_RCTRL);
          q = pressed_keys K_q
      in x_out \<or> (ctrl \<and> q))"

text \<open>The event loop of \<^verbatim>\<open>Game.run\<close>: a quit event clears \<^verbatim>\<open>running\<close>, any other event
  is appended to \<^verbatim>\<open>filtered_events\<close>.\<close>

fun drain_events :: "pressed \<Rightarrow> event list \<Rightarrow> bool \<Rightarrow> event list \<Rightarrow> bool \<times> event list" where
  "drain_events pk [] running filtered = (running, filtered)"
| "drain_events pk (ev # evs) running filtered =
     (if is_quit_event ev pk then drain_events pk evs False filtered
      else drain_events pk evs running (filtered @ [ev]))"

section \<open>Scenes of the registry-based design (scenes/scene.py, play_scene1.py, end_scene.py)\<close>

text \<open>
  Scene objects live in a store addressed by object identity; \<^verbatim>\<open>is\<close> compares
  addresses. An attribute that has not been assigned yet does not exist in Python:
  \<^verbatim>\<open>next_scene\<close> before the first \<^verbatim>\<open>enter()\<close> and \<^verbatim>\<open>font_xl\<close> before the first
  \<^verbatim>\<open>load_assets()\<close>. The classes \<^verbatim>\<open>TitleScene\<close>, \<^verbatim>\<open>PlayScene2\<close> and \<^verbatim>\<open>SpecialScene\<close>
  that game.py imports are not among the sources, so the registry and the store are
  parameters of the driver here, filled with instances of the classes at hand.
\<close>

datatype scene_class = Scene | PlayScene1 | EndScene

datatype pyref = PyNone | Ref nat

datatype font_slot = NoAttr | IsNone | Font nat

datatype error = AttributeError | NotImplementedError | KeyError

record scene =
  cls :: scene_class
  cleanup_on_terminate :: bool
  delay_asset_loading :: bool
  assets_loaded :: bool
  terminated :: bool
  next_scene :: "pyref option"
  font_xl :: font_slot

datatype scene_method =
    M_init | M_load_assets | M_enter | M_exit | M_terminate | M_cleanup
  | M_process_input "event list" | M_update | M_render

datatype call = Call nat scene_method | DisplayFlip | ClockTick nat | PygameQuit | Print string

text \<open>
  The game holds the registry, the store and the driver's two scene attributes. Two
  lists observe a run and are read by no code: \<open>trace\<close>, the calls made, in order, and
  \<open>active_at\<close>, for each of those calls the value \<^verbatim>\<open>game.active_scene\<close> had when the call
  was made (what the called method would read through \<^verbatim>\<open>self.game\<close>), so that the order
  of the driver's assignments relative to its calls is part of what is observed.
\<close>

record game =
  scenes :: "string \<rightharpoonup> nat"
  heap :: "nat \<Rightarrow> scene"
  next_id :: nat
  active_scene :: pyref
  previous_scene :: "pyref option"
  trace :: "call list"
  active_at :: "pyref list"

definition log :: "call \<Rightarrow> game \<Rightarrow> game" where
  "log c g = g\<lparr>trace := trace g @ [c], active_at := active_at g @ [active_scene g]\<rparr>"

definition upd :: "nat \<Rightarrow> (scene \<Rightarrow> scene) \<Rightarrow> game \<Rightarrow> game" where
  "upd r f g = g\<lparr>heap := (heap g)(r := f (heap g r))\<rparr>"

definition bind_err :: "error + 'a \<Rightarrow> ('a \<Rightarrow> error + 'b) \<Rightarrow> error + 'b" where
  "bind_err m f = (case m of Inl e \<Rightarrow> Inl e | Inr x \<Rightarrow> f x)"

subsection \<open>load_assets and cleanup, as overridden\<close>

definition Scene_load_assets :: "nat \<Rightarrow> game \<Rightarrow> game" where
  "Scene_load_assets r g = g"

definition PlayScene1_load_assets :: "nat \<Rightarrow> game \<Rightarrow> game" where
  "PlayScene1_load_assets r g = upd r (\<lambda>s. s\<lparr>font_xl := Font 96\<rparr>) g"

definition EndScene_load_assets :: "nat \<Rightarrow> game \<Rightarrow> game" where
  "EndScene_load_assets r g = upd r (\<lambda>s. s\<lparr>font_xl := Font 96\<rparr>) g"

definition load_assets :: "nat \<Rightarrow> game \<Rightarrow> game" where
  "load_assets r g =
     (let g1 = log (Call r M_load_assets) g
      in case cls (heap g1 r) of
           Scene \<Rightarrow> Scene_load_assets r g1
         | PlayScene1 \<Rightarrow> PlayScene1_load_assets r g1
         | EndScene \<Rightarrow> EndScene_load_assets r g1)"

definition Scene_cleanup :: "nat \<Rightarrow> game \<Rightarrow> game" where
  "Scene_cleanup r g = g"

definition PlayScene1_cleanup :: "nat \<Rightarrow> game \<Rightarrow> game" where
  "PlayScene1_cleanup r g =
     upd r (\<lambda>s. s\<lparr>assets_loaded := False\<rparr>) (upd r (\<lambda>s. s\<lparr>font_xl := IsNone\<rparr>) g)"

definition EndScene_cleanup :: "nat \<Rightarrow> game \<Rightarrow> game" where
  "EndScene_cleanup r g =
     upd r (\<lambda>s. s\<lparr>assets_loaded := False\<rparr>) (upd r (\<lambda>s. s\<lparr>font_xl := IsNone\<rparr>) g)"

definition cleanup :: "nat \<Rightarrow> game \<Rightarrow> game" where
  "cleanup r g =
     (let g1 = log (Call r M_cleanup) g
      in case cls (heap g1 r) of
           Scene \<Rightarrow> Scene_cleanup r g1
         | PlayScene1 \<Rightarrow> PlayScene1_cleanup r g1
         | EndScene \<Rightarrow> EndScene_cleanup r g1)"

subsection \<open>The lifecycle methods of the base class\<close>

text \<open>\<^verbatim>\<open>Scene.__init__\<close>; the subclasses' constructors only call it. The keyword
  arguments are a dictionary read with \<^verbatim>\<open>kwargs.get(name, True)\<close>.\<close>

definition kwargs_get :: "(string \<rightharpoonup> bool) \<Rightarrow> string \<Rightarrow> bool \<Rightarrow> bool" where
  "kwargs_get kwargs name dflt = (case kwargs name of None \<Rightarrow> dflt | Some v \<Rightarrow> v)"

definition Scene_init :: "scene_class \<Rightarrow> (string \<rightharpoonup> bool) \<Rightarrow> game \<Rightarrow> nat \<times> game" where
  "Scene_init c kwargs g =
     (let r = next_id g;
          s = \<lparr>cls = c,
               cleanup_on_terminate = kwargs_get kwargs ''cleanup_on_terminate'' True,
               delay_asset_loading = kwargs_get kwargs ''delay_asset_loading'' True,
               assets_loaded = False,
               terminated = False,
               next_scene = None,
               font_xl = NoAttr\<rparr>;
          g1 = log (Call r M_init) (g\<lparr>heap := (heap g)(r := s), next_id := Suc r\<rparr>)
      in if \<not> delay_asset_loading (heap g1 r) then (r, load_assets r g1) else (r, g1))"

definition enter :: "nat \<Rightarrow> game \<Rightarrow> game" where
  "enter r g =
     (let g1 = log (Call r M_enter) g;
          g2 = upd r (\<lambda>s. s\<lparr>next_scene := Some (Ref r)\<rparr>) g1
      in if \<not> assets_loaded (heap g2 r)
         then upd r (\<lambda>s. s\<lparr>assets_loaded := True\<rparr>) (load_assets r g2)
         else g2)"

definition exit_scene :: "nat \<Rightarrow> game \<Rightarrow> game" where
  "exit_scene r g = log (Call r M_exit) g"

definition terminate :: "nat \<Rightarrow> game \<Rightarrow> game" where
  "terminate r g =
     (let g1 = log (Call r M_terminate) g
      in if cleanup_on_terminate (heap g1 r) then cleanup r g1 else g1)"

subsection \<open>process_input, update and render\<close>

definition registry_get :: "game \<Rightarrow> string \<Rightarrow> error + nat" where
  "registry_get g name = (case scenes g name of None \<Rightarrow> Inl KeyError | Some r \<Rightarrow> Inr r)"

fun PlayScene1_process_input :: "nat \<Rightarrow> event list \<Rightarrow> pressed \<Rightarrow> game \<Rightarrow> error + game" where
  "PlayScene1_process_input r [] pk g = Inr g"
| "PlayScene1_process_input r (ev # evs) pk g =
     (if etype ev = KEYDOWN then
        (if ekey ev = Some K_RIGHT then
           bind_err (registry_get g ''play2'') (\<lambda>t.
             PlayScene1_process_input r evs pk
               (upd r (\<lambda>s. s\<lparr>terminated := True\<rparr>)
                 (upd r (\<lambda>s. s\<lparr>next_scene := Some (Ref t)\<rparr>) g)))
         else if ekey ev = Some K_UP then
           bind_err (registry_get g ''special'') (\<lambda>t.
             PlayScene1_process_input r evs pk
               (upd r (\<lambda>s. s\<lparr>next_scene := Some (Ref t)\<rparr>) g))
         else PlayScene1_process_input r evs pk g)
      else PlayScene1_process_input r evs pk g)"

fun EndScene_process_input :: "nat \<Rightarrow> event list \<Rightarrow> pressed \<Rightarrow> game \<Rightarrow> error + game" where
  "EndScene_process_input r [] pk g = Inr g"
| "EndScene_process_input r (ev # evs) pk g =
     (if etype ev = KEYDOWN then
        (if ekey ev = Some K_RIGHT then
           bind_err (registry_get g ''title'') (\<lambda>t.
             EndScene_process_input r evs pk
               (upd r (\<lambda>s. s\<lparr>terminated := True\<rparr>)
                 (upd r (\<lambda>s. s\<lparr>next_scene := Some (Ref t)\<rparr>) g)))
         else EndScene_process_input r evs pk g)
      else EndScene_process_input r evs pk g)"

definition process_input :: "nat \<Rightarrow> event list \<Rightarrow> pressed \<Rightarrow> game \<Rightarrow> error + game" where
  "process_input r events pk g =
     (let g1 = log (Call r (M_process_input events)) g
      in case cls (heap g1 r) of
           Scene \<Rightarrow> Inl NotImplementedError
         | PlayScene1 \<Rightarrow> PlayScene1_process_input r events pk g1
         | EndScene \<Rightarrow> EndScene_process_input r events pk g1)"

definition update :: "nat \<Rightarrow> game \<Rightarrow> error + game" where
  "update r g =
     (let g1 = log (Call r M_update) g
      in case cls (heap g1 r) of
           Scene \<Rightarrow> Inl NotImplementedError
         | PlayScene1 \<Rightarrow> Inr g1
         | EndScene \<Rightarrow> Inr g1)"

text \<open>The two concrete scenes draw with \<^verbatim>\<open>self.font_xl.render(...)\<close>: an attribute
  that is missing, or \<^verbatim>\<open>None\<close> after a cleanup, raises.\<close>

definition font_render :: "nat \<Rightarrow> game \<Rightarrow> error + game" where
  "font_render r g =
     (case font_xl (heap g r) of
        Font n \<Rightarrow> Inr g
      | IsNone \<Rightarrow> Inl AttributeError
      | NoAttr \<Rightarrow> Inl AttributeError)"

definition render :: "nat \<Rightarrow> game \<Rightarrow> error + game" where
  "render r g =
     (let g1 = log (Call r M_render) g
      in case cls (heap g1 r) of
           Scene \<Rightarrow> Inl NotImplementedError
         | PlayScene1 \<Rightarrow> font_render r g1
         | EndScene \<Rightarrow> font_render r g1)"

section \<open>The driver of the registry-based design (game.py)\<close>

text \<open>A method call on \<^verbatim>\<open>self.active_scene\<close>; on \<^verbatim>\<open>None\<close> the attribute lookup
  raises.\<close>

definition on_active :: "game \<Rightarrow> (nat \<Rightarrow> game \<Rightarrow> error + game) \<Rightarrow> error + game" where
  "on_active g f = (case active_scene g of PyNone \<Rightarrow> Inl AttributeError | Ref a \<Rightarrow> f a g)"

definition manage_scene :: "game \<Rightarrow> event list \<Rightarrow> pressed \<Rightarrow> error + game" where
  "manage_scene g filtered pk =
     bind_err (on_active g (\<lambda>a. process_input a filtered pk)) (\<lambda>g1.
     bind_err (on_active g1 update) (\<lambda>g2.
     on_active g2 render))"

text \<open>Lines 64 to 75 of game.py: the scene-change check.\<close>

definition check_scene_change :: "game \<Rightarrow> error + game" where
  "check_scene_change g =
     (case active_scene g of
        PyNone \<Rightarrow> Inl AttributeError
      | Ref current_scene \<Rightarrow>
          (case next_scene (heap g current_scene) of
             None \<Rightarrow> Inl AttributeError
           | Some nxt \<Rightarrow>
               (let g1 = g\<lparr>active_scene := nxt\<rparr>
                in if Ref current_scene \<noteq> active_scene g1 then
                     (let g2 = g1\<lparr>previous_scene := Some (Ref current_scene)\<rparr>;
                          g3 = exit_scene current_scene g2;
                          g4 = (if terminated (heap g3 current_scene)
                                then cleanup current_scene g3 else g3)
                      in case active_scene g4 of
                           PyNone \<Rightarrow> Inl AttributeError
                         | Ref a \<Rightarrow> Inr (enter a g4))
                   else Inr g1)))"

definition FPS :: nat where
  "FPS = 60"

text \<open>One pass through the body of \<^verbatim>\<open>while running\<close>, entered with \<^verbatim>\<open>running\<close>
  true; the result carries the new value of \<^verbatim>\<open>running\<close>.\<close>

definition game_frame :: "game \<Rightarrow> pressed \<Rightarrow> event list \<Rightarrow> error + (bool \<times> game)" where
  "game_frame g pk evs =
     (case drain_events pk evs True [] of
        (running, filtered_events) \<Rightarrow>
          bind_err (manage_scene g filtered_events pk) (\<lambda>g1.
          bind_err (check_scene_change g1) (\<lambda>g2.
          Inr (running, log (ClockTick FPS) (log DisplayFlip g2)))))"

text \<open>
  \<^verbatim>\<open>Game.run\<close>. The environment is a script of frames, each the key snapshot and the
  pending events of that frame. The loop leaves through \<^verbatim>\<open>running\<close> (then
  \<^verbatim>\<open>pygame.quit()\<close> is called), through an exception, or it is still running when the
  script ends.
\<close>

datatype 'g outcome = Exited 'g | Raised error | Starved 'g

fun run_loop :: "bool \<Rightarrow> game \<Rightarrow> (pressed \<times> event list) list \<Rightarrow> game outcome" where
  "run_loop False g script = Exited (log PygameQuit g)"
| "run_loop True g [] = Starved g"
| "run_loop True g ((pk, evs) # script) =
     (case game_frame g pk evs of
        Inl e \<Rightarrow> Raised e
      | Inr (running, g') \<Rightarrow> run_loop running g' script)"

definition run :: "game \<Rightarrow> (pressed \<times> event list) list \<Rightarrow> game outcome" where
  "run g script = run_loop True g script"

section \<open>The single-file design (scene_manager.py)\<close>

text \<open>
  Here a scene holds only \<^verbatim>\<open>next_scene\<close>, set to itself by the constructor; a
  transition constructs a fresh scene object, and \<^verbatim>\<open>terminate()\<close> sets \<^verbatim>\<open>next_scene\<close>
  to \<^verbatim>\<open>None\<close>. The constructors and the input handlers print to standard output.
\<close>

datatype legacy_class = L_Scene | L_TitleScene | L_PlayScene | L_EndScene

record lscene =
  lcls :: legacy_class
  lnext :: pyref

record mygame =
  lheap :: "nat \<Rightarrow> lscene"
  lnext_id :: nat
  lactive :: pyref
  ltrace :: "call list"

definition llog :: "call \<Rightarrow> mygame \<Rightarrow> mygame" where
  "llog c m = m\<lparr>ltrace := ltrace m @ [c]\<rparr>"

definition lset_next :: "nat \<Rightarrow> pyref \<Rightarrow> mygame \<Rightarrow> mygame" where
  "lset_next r v m = m\<lparr>lheap := (lheap m)(r := (lheap m r)\<lparr>lnext := v\<rparr>)\<rparr>"

definition class_banner :: "legacy_class \<Rightarrow> call list" where
  "class_banner c =
     (case c of
        L_Scene \<Rightarrow> []
      | L_TitleScene \<Rightarrow> [Print ''title scene'']
      | L_PlayScene \<Rightarrow> [Print ''play scene'']
      | L_EndScene \<Rightarrow> [Print ''end scene''])"

definition legacy_new :: "legacy_class \<Rightarrow> mygame \<Rightarrow> nat \<times> mygame" where
  "legacy_new c m =
     (let r = lnext_id m;
          m1 = m\<lparr>lheap := (lheap m)(r := \<lparr>lcls = c, lnext = Ref r\<rparr>), lnext_id := Suc r\<rparr>;
          m2 = llog (Call r M_init) m1
      in (r, m2\<lparr>ltrace := ltrace m2 @ class_banner c\<rparr>))"

definition legacy_terminate :: "nat \<Rightarrow> mygame \<Rightarrow> mygame" where
  "legacy_terminate r m = lset_next r PyNone (llog (Call r M_terminate) m)"

fun TitleScene_process_input :: "nat \<Rightarrow> event list \<Rightarrow> pressed \<Rightarrow> mygame \<Rightarrow> mygame" where
  "TitleScene_process_input r [] pk m = m"
| "TitleScene_process_input r (ev # evs) pk m =
     (if etype ev = KEYDOWN then
        (let m1 = llog (Print ''down'') m
         in if ekey ev = Some K_SPACE then
              (case legacy_new L_PlayScene (llog (Print ''space'') m1) of
                 (n, m2) \<Rightarrow> TitleScene_process_input r evs pk (lset_next r (Ref n) m2))
            else TitleScene_process_input r evs pk m1)
      else TitleScene_process_input r evs pk m)"

fun PlayScene_process_input :: "nat \<Rightarrow> event list \<Rightarrow> pressed \<Rightarrow> mygame \<Rightarrow> mygame" where
  "PlayScene_process_input r [] pk m = m"
| "PlayScene_process_input r (ev # evs) pk m =
     (if etype ev = KEYDOWN then
        (if ekey ev = Some K_SPACE then
           (case legacy_new L_EndScene m of
              (n, m2) \<Rightarrow> PlayScene_process_input r evs pk (lset_next r (Ref n) m2))
         else PlayScene_process_input r evs pk m)
      else PlayScene_process_input r evs pk m)"

fun LEndScene_process_input :: "nat \<Rightarrow> event list \<Rightarrow> pressed \<Rightarrow> mygame \<Rightarrow> mygame" where
  "LEndScene_process_input r [] pk m = m"
| "LEndScene_process_input r (ev # evs) pk m =
     (if etype ev = KEYDOWN then
        (let m1 = llog (Print ''down'') m
         in if ekey ev = Some K_SPACE then
              (case legacy_new L_TitleScene (llog (Print ''space'') m1) of
                 (n, m2) \<Rightarrow> LEndScene_process_input r evs pk (lset_next r (Ref n) m2))
            else LEndScene_process_input r evs pk m1)
      else LEndScene_process_input r evs pk m)"

definition legacy_process_input :: "nat \<Rightarrow> event list \<Rightarrow> pressed \<Rightarrow> mygame \<Rightarrow> error + mygame" where
  "legacy_process_input r events pk m =
     (let m1 = llog (Call r (M_process_input events)) m
      in case lcls (lheap m1 r) of
           L_Scene \<Rightarrow> Inl NotImplementedError
         | L_TitleScene \<Rightarrow> Inr (TitleScene_process_input r events pk m1)
         | L_PlayScene \<Rightarrow> Inr (PlayScene_process_input r events pk m1)
         | L_EndScene \<Rightarrow> Inr (LEndScene_process_input r events pk m1))"

definition legacy_update :: "nat \<Rightarrow> mygame \<Rightarrow> error + mygame" where
  "legacy_update r m =
     (let m1 = llog (Call r M_update) m
      in case lcls (lheap m1 r) of L_Scene \<Rightarrow> Inl NotImplementedError | _ \<Rightarrow> Inr m1)"

definition legacy_render :: "nat \<Rightarrow> mygame \<Rightarrow> error + mygame" where
  "legacy_render r m =
     (let m1 = llog (Call r M_render) m
      in case lcls (lheap m1 r) of L_Scene \<Rightarrow> Inl NotImplementedError | _ \<Rightarrow> Inr m1)"

text \<open>The event loop of \<^verbatim>\<open>MyGame.run\<close>: a quit event calls \<^verbatim>\<open>terminate()\<close> on the
  active scene.\<close>

fun legacy_drain :: "nat \<Rightarrow> pressed \<Rightarrow> event list \<Rightarrow> mygame \<Rightarrow> event list \<Rightarrow> mygame \<times> event list" where
  "legacy_drain a pk [] m filtered = (m, filtered)"
| "legacy_drain a pk (ev # evs) m filtered =
     (if MyGame_is_quit_event ev pk then legacy_drain a pk evs (legacy_terminate a m) filtered
      else legacy_drain a pk evs m (filtered @ [ev]))"

text \<open>The frame up to and including \<^verbatim>\<open>render()\<close>, and the rest of it: the active
  scene becomes its own \<^verbatim>\<open>next_scene\<close>, then flip and tick.\<close>

definition MyGame_scene_phase :: "nat \<Rightarrow> mygame \<Rightarrow> pressed \<Rightarrow> event list \<Rightarrow> error + mygame" where
  "MyGame_scene_phase a m pk evs =
     (case legacy_drain a pk evs m [] of
        (m0, filtered_events) \<Rightarrow>
          bind_err (legacy_process_input a filtered_events pk m0) (\<lambda>m1.
          bind_err (legacy_update a m1) (\<lambda>m2.
          legacy_render a m2)))"

definition MyGame_advance :: "nat \<Rightarrow> mygame \<Rightarrow> mygame" where
  "MyGame_advance a m =
     llog (ClockTick FPS) (llog DisplayFlip (m\<lparr>lactive := lnext (lheap m a)\<rparr>))"

definition MyGame_frame :: "nat \<Rightarrow> mygame \<Rightarrow> pressed \<Rightarrow> event list \<Rightarrow> error + mygame" where
  "MyGame_frame a m pk evs =
     bind_err (MyGame_scene_phase a m pk evs) (\<lambda>m1. Inr (MyGame_advance a m1))"

fun MyGame_run :: "mygame \<Rightarrow> (pressed \<times> event list) list \<Rightarrow> mygame outcome" where
  "MyGame_run m [] = (case lactive m of PyNone \<Rightarrow> Exited m | Ref a \<Rightarrow> Starved m)"
| "MyGame_run m ((pk, evs) # script) =
     (case lactive m of
        PyNone \<Rightarrow> Exited m
      | Ref a \<Rightarrow>
          (case MyGame_frame a m pk evs of
             Inl e \<Rightarrow> Raised e
           | Inr m' \<Rightarrow> MyGame_run m' script))"

section \<open>Observations on a trace\<close>

text \<open>The arguments of the \<^verbatim>\<open>process_input\<close> calls of a trace, in order, and the
  calls that belong to a scene change.\<close>

fun process_input_args :: "call list \<Rightarrow> event list list" where
  "process_input_args [] = []"
| "process_input_args (Call r (M_process_input evs) # cs) = evs # process_input_args cs"
| "process_input_args (c # cs) = process_input_args cs"

fun is_change_call :: "call \<Rightarrow> bool" where
  "is_change_call (Call r M_exit) = True"
| "is_change_call (Call r M_cleanup) = True"
| "is_change_call (Call r M_enter) = True"
| "is_change_call c = False"

fun is_frame_call :: "call \<Rightarrow> bool" where
  "is_frame_call (Call r M_update) = True"
| "is_frame_call (Call r M_render) = True"
| "is_frame_call c = False"

section \<open>Concrete games\<close>

definition no_keys :: pressed where
  "no_keys = (\<lambda>k. False)"

definition ctrl_q :: pressed where
  "ctrl_q = (\<lambda>k. k = K_LCTRL \<or> k = K_q)"

definition blank_scene :: scene where
  "blank_scene = \<lparr>cls = Scene, cleanup_on_terminate = True, delay_asset_loading = True,
     assets_loaded = False, terminated = False, next_scene = None, font_xl = NoAttr\<rparr>"

definition empty_game :: game where
  "empty_game = \<lparr>scenes = Map.empty, heap = (\<lambda>r. blank_scene), next_id = 0,
     active_scene = PyNone, previous_scene = None, trace = [], active_at = []\<rparr>"

text \<open>A game of two scenes: a \<^verbatim>\<open>PlayScene1\<close> built with the given keyword arguments and
  an \<^verbatim>\<open>EndScene\<close> built with none. The registry sends every name \<^verbatim>\<open>PlayScene1\<close> looks up
  to the end scene and \<^verbatim>\<open>title\<close> to the play scene, which is activated as \<^verbatim>\<open>Game.__init__\<close>
  activates its first scene.\<close>

definition two_scene_game :: "(string \<rightharpoonup> bool) \<Rightarrow> game" where
  "two_scene_game kwargs =
     (case Scene_init PlayScene1 kwargs empty_game of
        (p, g1) \<Rightarrow>
          (case Scene_init EndScene Map.empty g1 of
             (e, g2) \<Rightarrow>
               enter p (g2\<lparr>scenes := [''play1'' \<mapsto> p, ''title'' \<mapsto> p, ''play2'' \<mapsto> e,
                                       ''special'' \<mapsto> e, ''end'' \<mapsto> e],
                           active_scene := Ref p\<rparr>)))"

definition legacy_start :: "legacy_class \<Rightarrow> mygame" where
  "legacy_start c =
     (case legacy_new c \<lparr>lheap = (\<lambda>r. \<lparr>lcls = L_Scene, lnext = PyNone\<rparr>), lnext_id = 0,
                          lactive = PyNone, ltrace = []\<rparr> of
        (r, m) \<Rightarrow> m\<lparr>lactive := Ref r\<rparr>)"

text \<open>The two-scene game with the play scene's \<^verbatim>\<open>next_scene\<close> set to \<^verbatim>\<open>None\<close>, as a scene
  written against the single-file design would set it.\<close>

definition nulled_successor :: game where
  "nulled_successor = upd 0 (\<lambda>s. s\<lparr>next_scene := Some PyNone\<rparr>) (two_scene_game Map.empty)"

section \<open>Basic facts\<close>

lemma bind_err_Inr [simp]: "bind_err (Inr x) f = f x"
  by (simp add: bind_err_def)

lemma bind_err_Inl [simp]: "bind_err (Inl e) f = Inl e"
  by (simp add: bind_err_def)

lemma drain_events_eq:
  "drain_events pk evs running filtered =
     (running \<and> \<not> list_ex (\<lambda>ev. is_quit_event ev pk) evs,
      filtered @ filter (\<lambda>ev. \<not> is_quit_event ev pk) evs)"
  by (induction evs arbitrary: running filtered) auto

lemma process_input_args_append:
  "process_input_args (xs @ ys) = process_input_args xs @ process_input_args ys"
  by (induction xs rule: process_input_args.induct) simp_all

text \<open>What the input handlers of the two concrete scenes leave alone.\<close>

lemma PlayScene1_process_input_frame:
  "PlayScene1_process_input r evs pk g = Inr g' \<Longrightarrow>
     trace g' = trace g \<and> active_scene g' = active_scene g \<and> scenes g' = scenes g \<and>
     cls (heap g' r) = cls (heap g r) \<and> font_xl (heap g' r) = font_xl (heap g r)"
proof (induction evs arbitrary: g)
  case Nil
  then show ?case by simp
next
  case (Cons ev evs)
  then show ?case
    by (fastforce simp: upd_def registry_get_def bind_err_def
        split: if_splits sum.splits option.splits)
qed

lemma EndScene_process_input_frame:
  "EndScene_process_input r evs pk g = Inr g' \<Longrightarrow>
     trace g' = trace g \<and> active_scene g' = active_scene g \<and> scenes g' = scenes g \<and>
     cls (heap g' r) = cls (heap g r) \<and> font_xl (heap g' r) = font_xl (heap g r)"
proof (induction evs arbitrary: g)
  case Nil
  then show ?case by simp
next
  case (Cons ev evs)
  then show ?case
    by (fastforce simp: upd_def registry_get_def bind_err_def
        split: if_splits sum.splits option.splits)
qed

lemma process_input_frame:
  assumes "process_input r evs pk g = Inr g'"
  shows "trace g' = trace g @ [Call r (M_process_input evs)]"
    and "active_scene g' = active_scene g"
    and "cls (heap g' r) = cls (heap g r)"
  using assms
  by (auto simp: process_input_def log_def Let_def split: scene_class.splits
      dest!: PlayScene1_process_input_frame EndScene_process_input_frame)

lemma update_result: "update r g = Inr g' \<Longrightarrow> g' = log (Call r M_update) g"
  by (auto simp: update_def Let_def split: scene_class.splits)

lemma render_result: "render r g = Inr g' \<Longrightarrow> g' = log (Call r M_render) g"
  by (auto simp: render_def font_render_def Let_def split: scene_class.splits font_slot.splits)

text \<open>The scene phase of a frame makes exactly three calls, all on the active scene.\<close>

lemma manage_scene_frame:
  assumes "manage_scene g filtered pk = Inr g1" and "active_scene g = Ref a"
  shows "trace g1 = trace g @ [Call a (M_process_input filtered), Call a M_update, Call a M_render]"
    and "active_scene g1 = Ref a"
proof -
  from assms obtain h1 where h1: "process_input a filtered pk g = Inr h1"
    by (auto simp: manage_scene_def on_active_def bind_err_def split: sum.splits)
  have a1: "active_scene h1 = Ref a"
    using process_input_frame(2)[OF h1] assms(2) by simp
  from assms h1 a1 obtain h2 where h2: "update a h1 = Inr h2"
    by (auto simp: manage_scene_def on_active_def bind_err_def split: sum.splits)
  have e2: "h2 = log (Call a M_update) h1"
    by (rule update_result[OF h2])
  have a2: "active_scene h2 = Ref a"
    using e2 a1 by (simp add: log_def)
  from assms h1 a1 h2 a2 have h3: "render a h2 = Inr g1"
    by (auto simp: manage_scene_def on_active_def bind_err_def split: sum.splits)
  have e3: "g1 = log (Call a M_render) h2"
    by (rule render_result[OF h3])
  show "trace g1 = trace g @ [Call a (M_process_input filtered), Call a M_update, Call a M_render]"
    using e3 e2 process_input_frame(1)[OF h1] by (simp add: log_def)
  show "active_scene g1 = Ref a"
    using e3 a2 by (simp add: log_def)
qed

lemma manage_scene_needs_active:
  "manage_scene g filtered pk = Inr g1 \<Longrightarrow> \<exists>a. active_scene g = Ref a"
  by (cases "active_scene g") (auto simp: manage_scene_def on_active_def)

section \<open>The scene-change check\<close>

lemmas method_defs = enter_def load_assets_def cleanup_def exit_scene_def log_def upd_def Let_def
  Scene_load_assets_def PlayScene1_load_assets_def EndScene_load_assets_def
  Scene_cleanup_def PlayScene1_cleanup_def EndScene_cleanup_def

lemma check_scene_change_same:
  assumes "active_scene g = Ref a" and "next_scene (heap g a) = Some (Ref a)"
  shows "check_scene_change g = Inr g"
  using assms by (simp add: check_scene_change_def)

lemma check_scene_change_other:
  assumes "active_scene g = Ref cur" and "next_scene (heap g cur) = Some (Ref nxt)"
    and "nxt \<noteq> cur"
  shows "\<exists>g'. check_scene_change g = Inr g' \<and> active_scene g' = Ref nxt \<and>
           previous_scene g' = Some (Ref cur) \<and>
           trace g' = trace g @ [Call cur M_exit]
             @ (if terminated (heap g cur) then [Call cur M_cleanup] else [])
             @ [Call nxt M_enter]
             @ (if assets_loaded (heap g nxt) then [] else [Call nxt M_load_assets])"
  using assms
  by (simp add: check_scene_change_def method_defs split: scene_class.split)


lemma check_scene_change_trace:
  assumes "check_scene_change g = Inr g'"
  shows "\<exists>cs. trace g' = trace g @ cs \<and> process_input_args cs = [] \<and>
           filter is_frame_call cs = []"
proof -
  from assms obtain cur where cur: "active_scene g = Ref cur"
    by (cases "active_scene g") (auto simp: check_scene_change_def)
  from assms cur obtain nx where nx: "next_scene (heap g cur) = Some nx"
    by (cases "next_scene (heap g cur)") (auto simp: check_scene_change_def)
  show ?thesis
  proof (cases "nx = Ref cur")
    case True
    then have "check_scene_change g = Inr g"
      using cur nx by (simp add: check_scene_change_same)
    with assms show ?thesis by simp
  next
    case False
    from assms cur nx False obtain nxt where n: "nx = Ref nxt"
      by (cases nx) (auto simp: check_scene_change_def method_defs split: if_splits scene_class.splits)
    with False have "nxt \<noteq> cur" by simp
    from check_scene_change_other[OF cur nx[unfolded n] this] assms
    show ?thesis by (auto simp: process_input_args_append)
  qed
qed

section \<open>Frames\<close>

lemma game_frame_Inr:
  assumes "game_frame g pk evs = Inr (running, g')"
  obtains g1 g2 where
    "manage_scene g (filter (\<lambda>ev. \<not> is_quit_event ev pk) evs) pk = Inr g1"
    "check_scene_change g1 = Inr g2"
    "g' = log (ClockTick FPS) (log DisplayFlip g2)"
    "running = (\<not> list_ex (\<lambda>ev. is_quit_event ev pk) evs)"
  using assms
  by (auto simp: game_frame_def drain_events_eq bind_err_def split: sum.splits)

lemma game_frame_trace:
  assumes "game_frame g pk evs = Inr (running, g')" and "active_scene g = Ref a"
  shows "\<exists>cs. trace g' = trace g
            @ [Call a (M_process_input (filter (\<lambda>ev. \<not> is_quit_event ev pk) evs)),
               Call a M_update, Call a M_render]
            @ cs @ [DisplayFlip, ClockTick FPS]
          \<and> process_input_args cs = [] \<and> filter is_frame_call cs = []"
proof -
  from assms(1) obtain g1 g2 where
    m: "manage_scene g (filter (\<lambda>ev. \<not> is_quit_event ev pk) evs) pk = Inr g1" and
    c: "check_scene_change g1 = Inr g2" and
    e: "g' = log (ClockTick FPS) (log DisplayFlip g2)"
    by (rule game_frame_Inr)
  from check_scene_change_trace[OF c] obtain cs where
    cs: "trace g2 = trace g1 @ cs" "process_input_args cs = []" "filter is_frame_call cs = []"
    by blast
  have "trace g' = trace g
            @ [Call a (M_process_input (filter (\<lambda>ev. \<not> is_quit_event ev pk) evs)),
               Call a M_update, Call a M_render]
            @ cs @ [DisplayFlip, ClockTick FPS]"
    using e cs(1) manage_scene_frame(1)[OF m assms(2)] by (simp add: log_def)
  with cs(2,3) show ?thesis by blast
qed

text \<open>The same observations for the single-file driver.\<close>


lemma legacy_drain_snd:
  "snd (legacy_drain a pk evs m filtered) =
     filtered @ filter (\<lambda>ev. \<not> MyGame_is_quit_event ev pk) evs"
  by (induction evs arbitrary: m filtered) simp_all

lemma legacy_drain_trace:
  "process_input_args (ltrace (fst (legacy_drain a pk evs m filtered))) = process_input_args (ltrace m)"
  by (induction evs arbitrary: m filtered)
    (simp_all add: legacy_terminate_def llog_def lset_next_def process_input_args_append)

lemma legacy_new_trace:
  "legacy_new c m = (n, m') \<Longrightarrow> process_input_args (ltrace m') = process_input_args (ltrace m)"
  by (cases c) (auto simp: legacy_new_def llog_def Let_def class_banner_def process_input_args_append)

lemma TitleScene_process_input_trace:
  "process_input_args (ltrace (TitleScene_process_input r evs pk m)) = process_input_args (ltrace m)"
  by (induction evs arbitrary: m)
    (auto simp: llog_def lset_next_def Let_def process_input_args_append
      split: prod.splits dest!: legacy_new_trace)

lemma PlayScene_process_input_trace:
  "process_input_args (ltrace (PlayScene_process_input r evs pk m)) = process_input_args (ltrace m)"
  by (induction evs arbitrary: m)
    (auto simp: llog_def lset_next_def Let_def process_input_args_append
      split: prod.splits dest!: legacy_new_trace)

lemma LEndScene_process_input_trace:
  "process_input_args (ltrace (LEndScene_process_input r evs pk m)) = process_input_args (ltrace m)"
  by (induction evs arbitrary: m)
    (auto simp: llog_def lset_next_def Let_def process_input_args_append
      split: prod.splits dest!: legacy_new_trace)

lemma legacy_process_input_trace:
  "legacy_process_input r evs pk m = Inr m' \<Longrightarrow>
     process_input_args (ltrace m') = process_input_args (ltrace m) @ [evs]"
  by (auto simp: legacy_process_input_def Let_def llog_def process_input_args_append
      TitleScene_process_input_trace PlayScene_process_input_trace LEndScene_process_input_trace
      split: legacy_class.splits)

lemma legacy_update_result: "legacy_update r m = Inr m' \<Longrightarrow> m' = llog (Call r M_update) m"
  by (auto simp: legacy_update_def Let_def split: legacy_class.splits)

lemma legacy_render_result: "legacy_render r m = Inr m' \<Longrightarrow> m' = llog (Call r M_render) m"
  by (auto simp: legacy_render_def Let_def split: legacy_class.splits)

lemma MyGame_frame_args:
  assumes "MyGame_frame a m pk evs = Inr m'"
  shows "process_input_args (ltrace m') =
       process_input_args (ltrace m) @ [filter (\<lambda>ev. \<not> MyGame_is_quit_event ev pk) evs]"
proof -
  obtain m0 fs where d: "legacy_drain a pk evs m [] = (m0, fs)"
    by (cases "legacy_drain a pk evs m []")
  have fs: "fs = filter (\<lambda>ev. \<not> MyGame_is_quit_event ev pk) evs"
    using d legacy_drain_snd[of a pk evs m "[]"] by simp
  have m0: "process_input_args (ltrace m0) = process_input_args (ltrace m)"
    using d legacy_drain_trace[of a pk evs m "[]"] by simp
  from assms d obtain m1 m2 m3 where
    p: "legacy_process_input a fs pk m0 = Inr m1" and
    u: "legacy_update a m1 = Inr m2" and
    r: "legacy_render a m2 = Inr m3" and
    e: "m' = MyGame_advance a m3"
    by (auto simp: MyGame_frame_def MyGame_scene_phase_def bind_err_def split: sum.splits)
  show ?thesis
    using legacy_process_input_trace[OF p] legacy_update_result[OF u] legacy_render_result[OF r]
      e m0 fs
    by (simp add: MyGame_advance_def llog_def process_input_args_append)
qed

section \<open>The concrete games, evaluated\<close>

lemmas init_defs = two_scene_game_def Scene_init_def empty_game_def kwargs_get_def method_defs

lemma two_scene_game_facts:
  "active_scene (two_scene_game kw) = Ref 0"
  "heap (two_scene_game kw) 0 =
     \<lparr>cls = PlayScene1,
      cleanup_on_terminate = kwargs_get kw ''cleanup_on_terminate'' True,
      delay_asset_loading = kwargs_get kw ''delay_asset_loading'' True,
      assets_loaded = True, terminated = False, next_scene = Some (Ref 0), font_xl = Font 96\<rparr>"
  "heap (two_scene_game kw) (Suc 0) =
     \<lparr>cls = EndScene, cleanup_on_terminate = True, delay_asset_loading = True,
      assets_loaded = False, terminated = False, next_scene = None, font_xl = NoAttr\<rparr>"
  "scenes (two_scene_game kw) = [''play1'' \<mapsto> 0, ''title'' \<mapsto> 0, ''play2'' \<mapsto> Suc 0,
      ''special'' \<mapsto> Suc 0, ''end'' \<mapsto> Suc 0]"
  by (simp_all add: init_defs)

lemma two_scene_game_trace:
  "trace (two_scene_game kw) =
     (if kwargs_get kw ''delay_asset_loading'' True
      then [Call 0 M_init, Call (Suc 0) M_init, Call 0 M_enter, Call 0 M_load_assets]
      else [Call 0 M_init, Call 0 M_load_assets, Call (Suc 0) M_init, Call 0 M_enter,
            Call 0 M_load_assets])"
  by (simp add: init_defs)



section \<open>Evaluation rules\<close>

lemmas frame_defs = game_frame_def manage_scene_def on_active_def process_input_def update_def
  render_def font_render_def registry_get_def check_scene_change_def FPS_def

lemmas legacy_defs = legacy_start_def legacy_new_def class_banner_def llog_def lset_next_def
  legacy_terminate_def MyGame_is_quit_event_def MyGame_frame_def MyGame_scene_phase_def
  MyGame_advance_def legacy_process_input_def legacy_update_def legacy_render_def FPS_def Let_def

lemma MyGame_run_none: "lactive m = PyNone \<Longrightarrow> MyGame_run m script = Exited m"
  by (cases script) auto

section \<open>The claims\<close>

subsection \<open>Cleanup on a scene change\<close>

text \<open>
  C1. The claim: on a scene change away from a scene built with
  \<^verbatim>\<open>cleanup_on_terminate=False\<close> the driver never runs \<^verbatim>\<open>cleanup()\<close> on it, because it goes
  through \<^verbatim>\<open>terminate()\<close>, which consults the flag. The driver does not: it calls
  \<^verbatim>\<open>cleanup()\<close> itself whenever \<^verbatim>\<open>terminated\<close> is set and never calls \<^verbatim>\<open>terminate()\<close>.
  Evaluated here on a \<^verbatim>\<open>PlayScene1\<close> built with \<^verbatim>\<open>cleanup_on_terminate=False\<close> in the
  frame where RIGHT is pressed: the frame's calls are \<^verbatim>\<open>process_input\<close>, \<^verbatim>\<open>update\<close>,
  \<^verbatim>\<open>render\<close>, \<^verbatim>\<open>exit\<close>, then \<^verbatim>\<open>cleanup\<close> on the outgoing scene, and its assets are
  gone afterwards.
\<close>

theorem cleanup_runs_despite_flag:
  "\<not> cleanup_on_terminate (heap (two_scene_game [''cleanup_on_terminate'' \<mapsto> False]) 0) \<and>
   (\<exists>g'. game_frame (two_scene_game [''cleanup_on_terminate'' \<mapsto> False]) no_keys
            [KeyDown K_RIGHT] = Inr (True, g') \<and>
      trace g' = trace (two_scene_game [''cleanup_on_terminate'' \<mapsto> False])
        @ [Call 0 (M_process_input [KeyDown K_RIGHT]), Call 0 M_update, Call 0 M_render,
           Call 0 M_exit, Call 0 M_cleanup, Call 1 M_enter, Call 1 M_load_assets,
           DisplayFlip, ClockTick 60] \<and>
      \<not> assets_loaded (heap g' 0) \<and> font_xl (heap g' 0) = IsNone)"
  by (simp add: frame_defs two_scene_game_facts method_defs kwargs_get_def
      is_quit_event_def no_keys_def)

subsection \<open>Eager loading\<close>

text \<open>
  C2. The claim: a scene built with \<^verbatim>\<open>delay_asset_loading=False\<close> loads its assets
  exactly once, at construction, and not again on the first \<^verbatim>\<open>enter()\<close>. The constructor
  calls \<^verbatim>\<open>load_assets()\<close> but leaves \<^verbatim>\<open>assets_loaded\<close> false, so the first \<^verbatim>\<open>enter()\<close>
  loads again: for every class, every other keyword argument and every state, constructing
  with \<^verbatim>\<open>delay_asset_loading=False\<close> and entering makes the calls \<^verbatim>\<open>__init__\<close>,
  \<^verbatim>\<open>load_assets\<close>, \<^verbatim>\<open>enter\<close>, \<^verbatim>\<open>load_assets\<close>.
\<close>

theorem eager_scene_loads_twice:
  "(case Scene_init c (kwargs(''delay_asset_loading'' \<mapsto> False)) g of
      (r, g1) \<Rightarrow> trace (enter r g1)) =
   trace g @ [Call (next_id g) M_init, Call (next_id g) M_load_assets,
              Call (next_id g) M_enter, Call (next_id g) M_load_assets]"
  by (simp add: Scene_init_def kwargs_get_def method_defs split: scene_class.split)

subsection \<open>Quit signals end the loop\<close>

text \<open>
  C3. The claim: in a frame in which a quit signal is drained, the driver's loop exits
  within that frame, with no further \<^verbatim>\<open>update()\<close> or \<^verbatim>\<open>render()\<close> call. \<^verbatim>\<open>MyGame.run\<close>
  means to do so, by calling \<^verbatim>\<open>terminate()\<close> on the active scene while the events are
  drained, and misses it: the \<^verbatim>\<open>process_input\<close> of the same frame, seeing SPACE, assigns
  a new scene to \<^verbatim>\<open>next_scene\<close> again. Evaluated here on a title scene with the events
  window-close and SPACE: the loop goes on with the new scene, and updates and renders it
  in the next frame.
\<close>

theorem legacy_quit_overridden:
  "MyGame_is_quit_event QuitEv no_keys \<and>
   (\<exists>m. MyGame_run (legacy_start L_TitleScene)
           [(no_keys, [QuitEv, KeyDown K_SPACE]), (no_keys, [])] = Starved m \<and>
      lactive m = Ref 1 \<and>
      filter is_frame_call (ltrace m) =
        [Call 0 M_update, Call 0 M_render, Call 1 M_update, Call 1 M_render])"
  by (simp add: legacy_defs no_keys_def)

text \<open>
  \<^verbatim>\<open>Game.run\<close> does what the claim says. A frame in which some drained event is a quit
  signal is the last frame of its loop: whatever the script holds after it, the run ends
  with that frame (through \<^verbatim>\<open>pygame.quit()\<close>, or through the exception the frame raised).
  The frame itself is completed first: of \<^verbatim>\<open>update\<close> and \<^verbatim>\<open>render\<close> calls, the run adds
  exactly the one \<^verbatim>\<open>update()\<close> and the one \<^verbatim>\<open>render()\<close> of that frame on the scene that was
  active, and none after them.
\<close>

theorem quit_frame_is_last:
  assumes "\<exists>ev\<in>set evs. is_quit_event ev pk"
  shows "run g ((pk, evs) # script) =
           (case game_frame g pk evs of
              Inl e \<Rightarrow> Raised e
            | Inr (running, g') \<Rightarrow> Exited (log PygameQuit g')) \<and>
         (game_frame g pk evs = Inr (running, g') \<and> active_scene g = Ref a \<longrightarrow>
            filter is_frame_call (trace (log PygameQuit g')) =
              filter is_frame_call (trace g) @ [Call a M_update, Call a M_render])"
proof -
  from assms have q: "list_ex (\<lambda>ev. is_quit_event ev pk) evs"
    by (simp add: list_ex_iff)
  have stop: "r = False" if "game_frame g pk evs = Inr (r, h)" for r h
    using game_frame_Inr[OF that] q by blast
  have first: "run g ((pk, evs) # script) =
           (case game_frame g pk evs of
              Inl e \<Rightarrow> Raised e
            | Inr (running, g') \<Rightarrow> Exited (log PygameQuit g'))"
  proof (cases "game_frame g pk evs")
    case (Inl e)
    then show ?thesis by (simp add: run_def)
  next
    case (Inr p)
    obtain r h where p: "p = (r, h)" by (cases p)
    with Inr stop have "r = False" by blast
    with Inr p show ?thesis by (simp add: run_def)
  qed
  have second: "filter is_frame_call (trace (log PygameQuit g')) =
              filter is_frame_call (trace g) @ [Call a M_update, Call a M_render]"
    if f: "game_frame g pk evs = Inr (running, g')" and a: "active_scene g = Ref a"
  proof -
    from game_frame_trace[OF f a] obtain cs where
      "trace g' = trace g
          @ [Call a (M_process_input (filter (\<lambda>ev. \<not> is_quit_event ev pk) evs)),
             Call a M_update, Call a M_render]
          @ cs @ [DisplayFlip, ClockTick FPS]"
      and "filter is_frame_call cs = []"
      by blast
    then show ?thesis by (simp add: log_def)
  qed
  from first second show ?thesis by blast
qed

text \<open>Two scripted frames, a window-close event in the first: the second never runs.\<close>

theorem quit_frame_is_last_witness:
  "(\<exists>ev\<in>set [KeyDown K_UP, QuitEv]. is_quit_event ev no_keys) \<and>
   (\<exists>g'. run (two_scene_game Map.empty)
            [(no_keys, [KeyDown K_UP, QuitEv]), (no_keys, [KeyDown K_RIGHT])] = Exited g' \<and>
      active_scene g' = Ref 1 \<and>
      filter is_frame_call (trace g') = [Call 0 M_update, Call 0 M_render])"
proof -
  have q: "\<exists>ev\<in>set [KeyDown K_UP, QuitEv]. is_quit_event ev no_keys"
    by (simp add: is_quit_event_def)
  have f: "\<exists>h. game_frame (two_scene_game Map.empty) no_keys [KeyDown K_UP, QuitEv] = Inr (False, h)
             \<and> active_scene h = Ref 1"
    by (simp add: frame_defs two_scene_game_facts method_defs is_quit_event_def no_keys_def)
  then obtain h where h: "game_frame (two_scene_game Map.empty) no_keys [KeyDown K_UP, QuitEv] = Inr (False, h)"
    and ah: "active_scene h = Ref 1" by blast
  from quit_frame_is_last[OF q, of "two_scene_game Map.empty" "[(no_keys, [KeyDown K_RIGHT])]" False h 0] h
  have "run (two_scene_game Map.empty)
            [(no_keys, [KeyDown K_UP, QuitEv]), (no_keys, [KeyDown K_RIGHT])] = Exited (log PygameQuit h)"
    and "filter is_frame_call (trace (log PygameQuit h)) = [Call 0 M_update, Call 0 M_render]"
    by (simp_all add: two_scene_game_facts two_scene_game_trace kwargs_get_def)
  with q ah show ?thesis by (auto simp: log_def)
qed

subsection \<open>An absent successor\<close>

text \<open>
  C4, as amended. In \<^verbatim>\<open>MyGame.run\<close>, when the active scene's \<^verbatim>\<open>next_scene\<close> is \<^verbatim>\<open>None\<close>
  after the frame's \<^verbatim>\<open>render()\<close>, the frame is completed (flip and tick), \<^verbatim>\<open>active_scene\<close>
  becomes \<^verbatim>\<open>None\<close> and the loop exits after that frame, whatever the script holds after it.
\<close>

theorem legacy_none_successor_exits:
  assumes "lactive m = Ref a" and "MyGame_scene_phase a m pk evs = Inr m1"
    and "lnext (lheap m1 a) = PyNone"
  shows "MyGame_run m ((pk, evs) # script) = Exited (MyGame_advance a m1) \<and>
         lactive (MyGame_advance a m1) = PyNone"
proof -
  have n: "lactive (MyGame_advance a m1) = PyNone"
    using assms(3) by (simp add: MyGame_advance_def llog_def)
  have "MyGame_run m ((pk, evs) # script) = MyGame_run (MyGame_advance a m1) script"
    using assms(1,2) by (simp add: MyGame_frame_def)
  with n show ?thesis by (simp add: MyGame_run_none)
qed

text \<open>A play scene of the single-file design, terminated by a window-close event.\<close>

theorem legacy_none_successor_exits_witness:
  "lactive (legacy_start L_PlayScene) = Ref 0 \<and>
   (\<exists>m1. MyGame_scene_phase 0 (legacy_start L_PlayScene) no_keys [QuitEv] = Inr m1 \<and>
      lnext (lheap m1 0) = PyNone \<and>
      MyGame_run (legacy_start L_PlayScene) [(no_keys, [QuitEv]), (no_keys, [KeyDown K_SPACE])] =
        Exited (MyGame_advance 0 m1) \<and>
      lactive (MyGame_advance 0 m1) = PyNone)"
proof -
  have a: "lactive (legacy_start L_PlayScene) = Ref 0"
    by (simp add: legacy_defs)
  have "\<exists>m1. MyGame_scene_phase 0 (legacy_start L_PlayScene) no_keys [QuitEv] = Inr m1 \<and>
      lnext (lheap m1 0) = PyNone"
    by (simp add: legacy_defs no_keys_def)
  then obtain m1 where p: "MyGame_scene_phase 0 (legacy_start L_PlayScene) no_keys [QuitEv] = Inr m1"
    and n: "lnext (lheap m1 0) = PyNone" by blast
  from legacy_none_successor_exits[OF a p n, of "[(no_keys, [KeyDown K_SPACE])]"] a p n
  show ?thesis by blast
qed

text \<open>
  The claim as stated covers \<^verbatim>\<open>Game.run\<close>, where it fails: with \<^verbatim>\<open>next_scene\<close> \<^verbatim>\<open>None\<close> at
  the scene-change check, the driver calls \<^verbatim>\<open>exit()\<close> on the outgoing scene and then
  \<^verbatim>\<open>enter()\<close> on \<^verbatim>\<open>None\<close>; the run ends in an \<^verbatim>\<open>AttributeError\<close> inside the frame, not
  by leaving the loop after it.
\<close>

theorem game_none_successor_raises:
  "active_scene nulled_successor = Ref 0 \<and>
   next_scene (heap nulled_successor 0) = Some PyNone \<and>
   check_scene_change nulled_successor = Inl AttributeError \<and>
   run nulled_successor [(no_keys, [])] = Raised AttributeError"
  by (simp add: nulled_successor_def run_def frame_defs two_scene_game_facts method_defs
      is_quit_event_def no_keys_def)

subsection \<open>After enter\<close>

text \<open>
  C5. For every scene \<open>r\<close> of the store, in every state, once \<^verbatim>\<open>enter()\<close> has returned
  the scene's \<^verbatim>\<open>assets_loaded\<close> is true and its \<^verbatim>\<open>next_scene\<close> is the scene itself,
  whatever \<^verbatim>\<open>next_scene\<close> held before.
\<close>

theorem enter_loaded_and_self:
  "assets_loaded (heap (enter r g) r) \<and> next_scene (heap (enter r g) r) = Some (Ref r)"
  by (simp add: enter_def load_assets_def log_def upd_def Let_def Scene_load_assets_def
      PlayScene1_load_assets_def EndScene_load_assets_def split: scene_class.split)

subsection \<open>The calls of a scene change\<close>




subsection \<open>What process_input receives\<close>

text \<open>
  C7. In both drivers the list handed to \<^verbatim>\<open>process_input\<close> is the list of drained events
  with the quit signals removed and the order kept: the event loop of \<^verbatim>\<open>Game.run\<close>
  computes exactly that list, and a frame of either driver that completes makes one
  \<^verbatim>\<open>process_input\<close> call, with that list as its argument.
\<close>

theorem process_input_gets_filtered_events:
  "snd (drain_events pk evs True []) = filter (\<lambda>ev. \<not> is_quit_event ev pk) evs \<and>
   (game_frame g pk evs = Inr (running, g') \<longrightarrow>
      process_input_args (trace g') =
        process_input_args (trace g) @ [filter (\<lambda>ev. \<not> is_quit_event ev pk) evs]) \<and>
   (MyGame_frame a m pk evs = Inr m' \<longrightarrow>
      process_input_args (ltrace m') =
        process_input_args (ltrace m) @ [filter (\<lambda>ev. \<not> MyGame_is_quit_event ev pk) evs])"
proof -
  have one: "snd (drain_events pk evs True []) = filter (\<lambda>ev. \<not> is_quit_event ev pk) evs"
    by (simp add: drain_events_eq)
  have two: "process_input_args (trace g') =
        process_input_args (trace g) @ [filter (\<lambda>ev. \<not> is_quit_event ev pk) evs]"
    if f: "game_frame g pk evs = Inr (running, g')"
  proof -
    from f obtain g1 where
      "manage_scene g (filter (\<lambda>ev. \<not> is_quit_event ev pk) evs) pk = Inr g1"
      by (rule game_frame_Inr)
    then obtain b where "active_scene g = Ref b"
      using manage_scene_needs_active by blast
    from game_frame_trace[OF f this] show ?thesis
      by (auto simp: process_input_args_append)
  qed
  from one two MyGame_frame_args show ?thesis by blast
qed

text \<open>A window-close event between two key events, in both drivers.\<close>

theorem process_input_gets_filtered_events_witness:
  "(\<exists>g'. game_frame (two_scene_game Map.empty) no_keys [KeyDown K_UP, QuitEv, KeyUp K_UP] =
            Inr (False, g') \<and>
      process_input_args (trace g') = [[KeyDown K_UP, KeyUp K_UP]]) \<and>
   (\<exists>m'. MyGame_frame 0 (legacy_start L_TitleScene) no_keys [KeyDown K_UP, QuitEv, KeyUp K_UP] =
            Inr m' \<and>
      process_input_args (ltrace m') = [[KeyDown K_UP, KeyUp K_UP]])"
proof -
  let ?evs = "[KeyDown K_UP, QuitEv, KeyUp K_UP]"
  have "\<exists>h. game_frame (two_scene_game Map.empty) no_keys ?evs = Inr (False, h)"
    by (simp add: frame_defs two_scene_game_facts method_defs is_quit_event_def no_keys_def)
  then obtain h where h: "game_frame (two_scene_game Map.empty) no_keys ?evs = Inr (False, h)"
    by blast
  have "\<exists>k. MyGame_frame 0 (legacy_start L_TitleScene) no_keys ?evs = Inr k"
    by (simp add: legacy_defs no_keys_def)
  then obtain k where k: "MyGame_frame 0 (legacy_start L_TitleScene) no_keys ?evs = Inr k"
    by blast
  from process_input_gets_filtered_events[of no_keys ?evs "two_scene_game Map.empty" False h
      0 "legacy_start L_TitleScene" k] h k
  have "process_input_args (trace h) = [[KeyDown K_UP, KeyUp K_UP]]"
    and "process_input_args (ltrace k) = [[KeyDown K_UP, KeyUp K_UP]]"
    by (simp_all add: two_scene_game_trace kwargs_get_def is_quit_event_def
        MyGame_is_quit_event_def no_keys_def legacy_start_def legacy_new_def llog_def
        class_banner_def Let_def)
  with h k show ?thesis by blast
qed

subsection \<open>No scene change\<close>

text \<open>
  C8. When, after \<^verbatim>\<open>process_input\<close>, \<^verbatim>\<open>update\<close> and \<^verbatim>\<open>render\<close>, the active scene's
  \<^verbatim>\<open>next_scene\<close> is the active scene itself, the scene-change check leaves the state as it
  is, the frame ends with flip and tick only, the active scene is the one the frame
  started with, and the frame adds no \<^verbatim>\<open>exit\<close>, \<^verbatim>\<open>cleanup\<close> or \<^verbatim>\<open>enter\<close> call.
\<close>

theorem no_change_when_next_is_self:
  assumes "manage_scene g (snd (drain_events pk evs True [])) pk = Inr g1"
    and "active_scene g1 = Ref a" and "next_scene (heap g1 a) = Some (Ref a)"
  shows "check_scene_change g1 = Inr g1 \<and>
         game_frame g pk evs =
           Inr (fst (drain_events pk evs True []), log (ClockTick FPS) (log DisplayFlip g1)) \<and>
         active_scene (log (ClockTick FPS) (log DisplayFlip g1)) = active_scene g \<and>
         filter is_change_call (trace (log (ClockTick FPS) (log DisplayFlip g1))) =
           filter is_change_call (trace g)"
proof -
  have c: "check_scene_change g1 = Inr g1"
    using assms(2,3) by (rule check_scene_change_same)
  have f: "game_frame g pk evs =
           Inr (fst (drain_events pk evs True []), log (ClockTick FPS) (log DisplayFlip g1))"
  proof -
    obtain r fs where d: "drain_events pk evs True [] = (r, fs)"
      by (cases "drain_events pk evs True []")
    with assms(1) c show ?thesis by (simp add: game_frame_def)
  qed
  from manage_scene_needs_active[OF assms(1)] obtain b where b: "active_scene g = Ref b"
    by blast
  from manage_scene_frame[OF assms(1) b] assms(2) have ab: "a = b"
    and tr: "trace g1 = trace g @ [Call b (M_process_input (snd (drain_events pk evs True []))),
               Call b M_update, Call b M_render]"
    by simp_all
  from c f b ab tr assms(2) show ?thesis by (simp add: log_def)
qed

text \<open>SPACE means nothing to the play scene: the only \<^verbatim>\<open>enter\<close> of the trace is the
  one that activated it.\<close>

theorem no_change_when_next_is_self_witness:
  "(\<exists>g1. manage_scene (two_scene_game Map.empty)
            (snd (drain_events no_keys [KeyDown K_SPACE] True [])) no_keys = Inr g1 \<and>
      active_scene g1 = Ref 0 \<and> next_scene (heap g1 0) = Some (Ref 0) \<and>
      check_scene_change g1 = Inr g1 \<and>
      game_frame (two_scene_game Map.empty) no_keys [KeyDown K_SPACE] =
        Inr (True, log (ClockTick FPS) (log DisplayFlip g1)) \<and>
      filter is_change_call (trace (log (ClockTick FPS) (log DisplayFlip g1))) = [Call 0 M_enter])"
proof -
  have "\<exists>g1. manage_scene (two_scene_game Map.empty)
            (snd (drain_events no_keys [KeyDown K_SPACE] True [])) no_keys = Inr g1 \<and>
      active_scene g1 = Ref 0 \<and> next_scene (heap g1 0) = Some (Ref 0)"
    by (simp add: frame_defs two_scene_game_facts method_defs is_quit_event_def no_keys_def)
  then obtain g1 where m: "manage_scene (two_scene_game Map.empty)
            (snd (drain_events no_keys [KeyDown K_SPACE] True [])) no_keys = Inr g1"
    and a: "active_scene g1 = Ref 0" and n: "next_scene (heap g1 0) = Some (Ref 0)"
    by blast
  have d: "fst (drain_events no_keys [KeyDown K_SPACE] True []) = True"
    by (simp add: is_quit_event_def no_keys_def)
  from no_change_when_next_is_self[OF m a n] d
  have "check_scene_change g1 = Inr g1 \<and>
      game_frame (two_scene_game Map.empty) no_keys [KeyDown K_SPACE] =
        Inr (True, log (ClockTick FPS) (log DisplayFlip g1)) \<and>
      filter is_change_call (trace (log (ClockTick FPS) (log DisplayFlip g1))) = [Call 0 M_enter]"
    by (simp add: two_scene_game_trace kwargs_get_def)
  with m a n show ?thesis by blast
qed

subsection \<open>Cleanup and reloading\<close>

text \<open>
  C9, as amended. For every scene of class \<^verbatim>\<open>PlayScene1\<close> or \<^verbatim>\<open>EndScene\<close>, whose
  \<^verbatim>\<open>cleanup()\<close> overrides reset the flag: after \<^verbatim>\<open>cleanup()\<close> returns, \<^verbatim>\<open>assets_loaded\<close> is
  false and the font is released, and the next \<^verbatim>\<open>enter()\<close> calls \<^verbatim>\<open>load_assets()\<close> again.
\<close>

theorem concrete_cleanup_forces_reload:
  assumes "cls (heap g r) = PlayScene1 \<or> cls (heap g r) = EndScene"
  shows "\<not> assets_loaded (heap (cleanup r g) r) \<and> font_xl (heap (cleanup r g) r) = IsNone \<and>
         trace (enter r (cleanup r g)) =
           trace g @ [Call r M_cleanup, Call r M_enter, Call r M_load_assets]"
  using assms by (auto simp: method_defs)

text \<open>The play scene of the two-scene game, loaded when it was activated.\<close>

theorem concrete_cleanup_forces_reload_witness:
  "cls (heap (two_scene_game Map.empty) 0) = PlayScene1 \<and>
   assets_loaded (heap (two_scene_game Map.empty) 0) \<and>
   \<not> assets_loaded (heap (cleanup 0 (two_scene_game Map.empty)) 0) \<and>
   trace (enter 0 (cleanup 0 (two_scene_game Map.empty))) =
     [Call 0 M_init, Call 1 M_init, Call 0 M_enter, Call 0 M_load_assets,
      Call 0 M_cleanup, Call 0 M_enter, Call 0 M_load_assets]"
proof -
  have c: "cls (heap (two_scene_game Map.empty) 0) = PlayScene1"
    and l: "assets_loaded (heap (two_scene_game Map.empty) 0)"
    by (simp_all add: two_scene_game_facts)
  from c have "cls (heap (two_scene_game Map.empty) 0) = PlayScene1 \<or>
      cls (heap (two_scene_game Map.empty) 0) = EndScene"
    by simp
  from concrete_cleanup_forces_reload[OF this] c l show ?thesis
    by (simp add: two_scene_game_trace kwargs_get_def)
qed

text \<open>
  The claim as stated says it of every scene, and \<^verbatim>\<open>Scene.cleanup\<close> of the base class is
  an empty hook: a \<^verbatim>\<open>Scene\<close> that was entered still has \<^verbatim>\<open>assets_loaded\<close> true after
  \<^verbatim>\<open>cleanup()\<close>, and entering it again does not call \<^verbatim>\<open>load_assets()\<close>.
\<close>

theorem base_cleanup_keeps_flag:
  "(case Scene_init Scene Map.empty empty_game of
      (r, g) \<Rightarrow> (assets_loaded (heap (cleanup r (enter r g)) r),
                  trace (enter r (cleanup r (enter r g))))) =
   (True, [Call 0 M_init, Call 0 M_enter, Call 0 M_load_assets, Call 0 M_cleanup, Call 0 M_enter])"
  by (simp add: init_defs)

subsection \<open>Ctrl and Q\<close>

text \<open>
  C10. When the key snapshot of a frame has left or right Ctrl held together with Q,
  \<^verbatim>\<open>is_quit_event\<close> of either driver holds of every event, whatever its type, the event
  loop of \<^verbatim>\<open>Game.run\<close> forwards nothing, and a frame of either driver that completes
  calls \<^verbatim>\<open>process_input\<close> once, with the empty list.
\<close>

theorem ctrl_q_empties_input:
  assumes "(pk K_LCTRL \<or> pk K_RCTRL) \<and> pk K_q"
  shows "is_quit_event ev pk \<and> MyGame_is_quit_event ev pk \<and>
         snd (drain_events pk evs True []) = [] \<and>
         (game_frame g pk evs = Inr (running, g') \<longrightarrow>
            process_input_args (trace g') = process_input_args (trace g) @ [[]]) \<and>
         (MyGame_frame a m pk evs = Inr m' \<longrightarrow>
            process_input_args (ltrace m') = process_input_args (ltrace m) @ [[]])"
proof -
  have q: "is_quit_event e pk" and lq: "MyGame_is_quit_event e pk" for e
    using assms by (simp_all add: is_quit_event_def MyGame_is_quit_event_def)
  have e1: "filter (\<lambda>ev. \<not> is_quit_event ev pk) evs = []"
    and e2: "filter (\<lambda>ev. \<not> MyGame_is_quit_event ev pk) evs = []"
    using q lq by simp_all
  have d: "snd (drain_events pk evs True []) = []"
    using e1 by (simp add: drain_events_eq)
  have f: "process_input_args (trace g') = process_input_args (trace g) @ [[]]"
    if f: "game_frame g pk evs = Inr (running, g')"
  proof -
    from f obtain g1 where
      "manage_scene g (filter (\<lambda>ev. \<not> is_quit_event ev pk) evs) pk = Inr g1"
      by (rule game_frame_Inr)
    then obtain b where "active_scene g = Ref b"
      using manage_scene_needs_active by blast
    from game_frame_trace[OF f this] e1 show ?thesis
      by (auto simp: process_input_args_append)
  qed
  have l: "process_input_args (ltrace m') = process_input_args (ltrace m) @ [[]]"
    if "MyGame_frame a m pk evs = Inr m'"
    using MyGame_frame_args[OF that] e2 by simp
  from q lq d f l show ?thesis by blast
qed

text \<open>Left Ctrl and Q held while a key event and another event arrive.\<close>

theorem ctrl_q_empties_input_witness:
  "((ctrl_q K_LCTRL \<or> ctrl_q K_RCTRL) \<and> ctrl_q K_q) \<and>
   is_quit_event (KeyDown K_RIGHT) ctrl_q \<and>
   (\<exists>g'. game_frame (two_scene_game Map.empty) ctrl_q [KeyDown K_RIGHT, OtherEv 7] =
            Inr (False, g') \<and>
      process_input_args (trace g') = [[]]) \<and>
   (\<exists>m'. MyGame_frame 0 (legacy_start L_TitleScene) ctrl_q [KeyDown K_SPACE, OtherEv 7] =
            Inr m' \<and>
      process_input_args (ltrace m') = [[]])"
proof -
  have p: "(ctrl_q K_LCTRL \<or> ctrl_q K_RCTRL) \<and> ctrl_q K_q"
    by (simp add: ctrl_q_def)
  have "\<exists>h. game_frame (two_scene_game Map.empty) ctrl_q [KeyDown K_RIGHT, OtherEv 7] =
            Inr (False, h)"
    by (simp add: frame_defs two_scene_game_facts method_defs is_quit_event_def ctrl_q_def)
  then obtain h where
    h: "game_frame (two_scene_game Map.empty) ctrl_q [KeyDown K_RIGHT, OtherEv 7] = Inr (False, h)"
    by blast
  have "\<exists>k. MyGame_frame 0 (legacy_start L_TitleScene) ctrl_q [KeyDown K_SPACE, OtherEv 7] = Inr k"
    by (simp add: legacy_defs ctrl_q_def)
  then obtain k where
    k: "MyGame_frame 0 (legacy_start L_TitleScene) ctrl_q [KeyDown K_SPACE, OtherEv 7] = Inr k"
    by blast
  have q: "is_quit_event (KeyDown K_RIGHT) ctrl_q"
    and "process_input_args (trace h) = process_input_args (trace (two_scene_game Map.empty)) @ [[]]"
    and "process_input_args (ltrace k) = process_input_args (ltrace (legacy_start L_TitleScene)) @ [[]]"
    using ctrl_q_empties_input[OF p, of "KeyDown K_RIGHT" "[KeyDown K_RIGHT, OtherEv 7]"
        "two_scene_game Map.empty" False h]
      ctrl_q_empties_input[OF p, of "KeyDown K_RIGHT" "[KeyDown K_SPACE, OtherEv 7]"
        "two_scene_game Map.empty" False h 0 "legacy_start L_TitleScene" k] h k
    by simp_all
  then have "process_input_args (trace h) = [[]]" and "process_input_args (ltrace k) = [[]]"
    by (simp_all add: two_scene_game_trace kwargs_get_def legacy_start_def legacy_new_def
        llog_def class_banner_def Let_def)
  with p q h k show ?thesis by blast
qed

end
